theory Spec2Isabelle
  imports Main
begin

section \<open>Data model (types.ts)\<close>

text \<open>
  The interfaces of the types module become records, its string-literal unions and enums
  become datatypes. A TypeScript \<open>number\<close> is modelled as \<open>int\<close>: the scores are
  declared INTEGER in the response schema and the timestamps come from \<open>Date.now()\<close>.
  Fields that share a name in the source (\<open>suggestion\<close>, \<open>score\<close>, \<open>id\<close>) carry a
  prefix here, because record fields are global constants.
\<close>

type_synonym number = int

datatype LightingQuality = Excellent | Good | Fair | Poor

datatype ClutterLevel = Clean | Moderate | Cluttered

datatype Difficulty = Easy | Medium | Hard

datatype MatchStatus = Perfect | GoodMatch | NeedsImprovement

datatype Gender = FEMALE | MALE | NEUTRAL

datatype PoseStyle = CASUAL | PROFESSIONAL | CREATIVE | STREET | GLAMOUR

record LightingAnalysis =
  quality :: LightingQuality
  direction :: string
  lighting_suggestion :: string

record BackgroundAnalysis =
  clutterLevel :: ClutterLevel
  background_suggestion :: string

record PoseSuggestion =
  title :: string
  description :: string
  difficulty :: Difficulty
  steps :: "string list"

record AnalysisResult =
  environment :: string
  lighting :: LightingAnalysis
  background :: BackgroundAnalysis
  suggestedPose :: PoseSuggestion

record PoseFeedback =
  score :: number
  matchStatus :: MatchStatus
  adjustments :: "string list"

record Point =
  px :: number
  py :: number

record PoseLandmarks =
  nose :: "Point option"
  leftShoulder :: "Point option"
  rightShoulder :: "Point option"
  leftElbow :: "Point option"
  rightElbow :: "Point option"
  leftWrist :: "Point option"
  rightWrist :: "Point option"
  leftHip :: "Point option"
  rightHip :: "Point option"

record GalleryImage =
  img_id :: string
  imageData :: string
  referenceImage :: "string option"
  img_score :: number
  timestamp :: number

section \<open>The platform, as far as the code uses it\<close>

text \<open>
  What a \<open>throw\<close> or a rejected promise carries. \<open>Rejection\<close> stands for whatever the
  remote call rejects with.
\<close>

datatype exn = Error string | SyntaxError | QuotaExceededError | Rejection

text \<open>
  The three JSON calls of the service module read \<open>response.text\<close> and hand it to
  \<open>JSON.parse\<close>. What the platform does there is an input of the model: the call
  rejects, the response has no text (\<open>response.text\<close> is falsy), \<open>JSON.parse\<close>
  throws, or \<open>JSON.parse\<close> returns a value, which the code casts to the declared type.
\<close>

datatype 'a text_reply = Rejected | NoText | Unparseable | Parsed 'a

text \<open>
  The image call reads \<open>response.candidates?.[0]?.content?.parts\<close>. A part either has
  no \<open>inlineData\<close> or has one whose \<open>data\<close> may be missing; a candidate whose content
  or parts are missing is \<open>None\<close>, and so is a response without candidates.
\<close>

datatype part = TextPart string | InlineData "string option"

type_synonym candidate = "part list option"

datatype image_reply = ImageRejected | ImageResponse "candidate list option"

text \<open>
  JavaScript values as \<open>JSON.parse\<close> returns them and \<open>JSON.stringify\<close> takes them.
  \<open>JSON.parse\<close> and \<open>JSON.stringify\<close> themselves are parameters of \<open>load\<close> and
  \<open>persist\<close> below: \<open>None\<close> from the parser is its \<open>SyntaxError\<close>.
\<close>

datatype js_value =
    JNull
  | JBool bool
  | JNumber number
  | JString string
  | JArray "js_value list"
  | JObject "(string \<times> js_value) list"

text \<open>\<open>Array.isArray\<close>: the value is a sequence.\<close>

fun is_sequence :: "js_value \<Rightarrow> bool" where
  "is_sequence (JArray xs) = True"
| "is_sequence v = False"

text \<open>
  The browser's \<open>localStorage\<close>: a string-keyed slot store with a size limit.
  \<open>setItem\<close> throws when the entry does not fit (the application uses one key).
\<close>

record localStorage =
  items :: "string \<Rightarrow> string option"
  capacity :: nat

definition getItem :: "localStorage \<Rightarrow> string \<Rightarrow> string option" where
  "getItem st k = items st k"

definition setItem :: "localStorage \<Rightarrow> string \<Rightarrow> string \<Rightarrow> exn + localStorage" where
  "setItem st k v =
     (if length k + length v \<le> capacity st
      then Inr (st\<lparr>items := (items st)(k \<mapsto> v)\<rparr>)
      else Inl QuotaExceededError)"

text \<open>\<open>Number.prototype.toString\<close> on an integer: its decimal digits.\<close>

function decimal :: "nat \<Rightarrow> string" where
  "decimal n =
     (if n < 10 then [''0123456789'' ! n]
      else decimal (n div 10) @ [''0123456789'' ! (n mod 10)])"
  by pat_completeness auto
termination
  by (relation "measure (\<lambda>n. n)") auto

declare decimal.simps [simp del]

definition toString :: "number \<Rightarrow> string" where
  "toString n = (if n < 0 then CHR ''-'' # decimal (nat (- n)) else decimal (nat n))"

section \<open>The remote service (services/geminiService.ts)\<close>

text \<open>
  The common shape of the three JSON calls inside their \<open>try\<close> block:
  \<^verbatim>\<open>const response = await ai.models.generateContent(...);
if (response.text) { return JSON.parse(response.text) as T; }\<close>
  \<open>Inl\<close> is an exception raised in the block, \<open>Inr None\<close> is falling through the
  \<open>if\<close>, \<open>Inr (Some v)\<close> is the \<open>return\<close> inside it.
\<close>

definition parsed_text :: "'a text_reply \<Rightarrow> exn + 'a option" where
  "parsed_text reply =
     (case reply of
        Rejected \<Rightarrow> Inl Rejection
      | NoText \<Rightarrow> Inr None
      | Unparseable \<Rightarrow> Inl SyntaxError
      | Parsed v \<Rightarrow> Inr (Some v))"

text \<open>
  \<open>analyzeSceneAndSuggest\<close>: falls through to \<open>throw new Error("No analysis generated")\<close>;
  the \<open>catch\<close> logs and rethrows.
\<close>

definition analyzeSceneAndSuggest :: "AnalysisResult text_reply \<Rightarrow> exn + AnalysisResult" where
  "analyzeSceneAndSuggest reply =
     (case parsed_text reply of
        Inl e \<Rightarrow> Inl e
      | Inr None \<Rightarrow> Inl (Error ''No analysis generated'')
      | Inr (Some v) \<Rightarrow> Inr v)"

text \<open>
  \<open>generatePoseReference\<close>:
  \<^verbatim>\<open>const imagePart = response.candidates?.[0]?.content?.parts?.find(part => part.inlineData);
if (imagePart?.inlineData?.data) { return imagePart.inlineData.data; }
throw new Error("No image generated");\<close>
\<close>

fun has_inlineData :: "part \<Rightarrow> bool" where
  "has_inlineData (InlineData d) = True"
| "has_inlineData (TextPart t) = False"

definition imagePart :: "candidate list option \<Rightarrow> part option" where
  "imagePart candidates =
     (case candidates of
        None \<Rightarrow> None
      | Some [] \<Rightarrow> None
      | Some (None # cs) \<Rightarrow> None
      | Some (Some parts # cs) \<Rightarrow> find has_inlineData parts)"

definition generatePoseReference :: "image_reply \<Rightarrow> exn + string" where
  "generatePoseReference reply =
     (case reply of
        ImageRejected \<Rightarrow> Inl Rejection
      | ImageResponse candidates \<Rightarrow>
          (case imagePart candidates of
             Some (InlineData (Some d)) \<Rightarrow>
               if d \<noteq> [] then Inr d else Inl (Error ''No image generated'')
           | _ \<Rightarrow> Inl (Error ''No image generated'')))"

text \<open>\<open>evaluatePoseMatch\<close>: as \<open>analyzeSceneAndSuggest\<close>, with its own message.\<close>

definition evaluatePoseMatch :: "PoseFeedback text_reply \<Rightarrow> exn + PoseFeedback" where
  "evaluatePoseMatch reply =
     (case parsed_text reply of
        Inl e \<Rightarrow> Inl e
      | Inr None \<Rightarrow> Inl (Error ''No feedback generated'')
      | Inr (Some v) \<Rightarrow> Inr v)"

text \<open>
  \<open>extractPoseLandmarks\<close>: falls through to \<open>return null\<close>, and its \<open>catch\<close> logs
  and returns \<open>null\<close> as well, so nothing is thrown to the caller.
\<close>

definition extractPoseLandmarks :: "PoseLandmarks text_reply \<Rightarrow> PoseLandmarks option" where
  "extractPoseLandmarks reply =
     (case parsed_text reply of
        Inl e \<Rightarrow> None
      | Inr v \<Rightarrow> v)"

section \<open>Gallery operations (App.tsx)\<close>

text \<open>
  The updater passed to \<open>setGallery\<close> by the save branch of \<open>handleCaptureFrame\<close>:
  \<^verbatim>\<open>prev => { const updated = [newImage, ...prev]; return updated.slice(0, 20); }\<close>
\<close>

definition gallery_append :: "GalleryImage \<Rightarrow> GalleryImage list \<Rightarrow> GalleryImage list" where
  "gallery_append newImage prev = (let updated = newImage # prev in take 20 updated)"

text \<open>
  The updater of \<open>deleteFromGallery\<close>:
  \<^verbatim>\<open>prev => prev.filter(img => img.id !== id)\<close>
\<close>

definition deleteFromGallery :: "string \<Rightarrow> GalleryImage list \<Rightarrow> GalleryImage list" where
  "deleteFromGallery i prev = filter (\<lambda>img. img_id img \<noteq> i) prev"

text \<open>A sequence of appends, oldest first, applied to a gallery.\<close>

definition append_all :: "GalleryImage list \<Rightarrow> GalleryImage list \<Rightarrow> GalleryImage list" where
  "append_all news g = foldl (\<lambda>acc e. gallery_append e acc) g news"

subsection \<open>Loading and persisting the gallery\<close>

text \<open>The object literal of the save branch, and an array of them, as JavaScript values.\<close>

definition js_of_GalleryImage :: "GalleryImage \<Rightarrow> js_value" where
  "js_of_GalleryImage img =
     JObject
       [(''id'', JString (img_id img)),
        (''imageData'', JString (imageData img)),
        (''referenceImage'', case referenceImage img of None \<Rightarrow> JNull | Some r \<Rightarrow> JString r),
        (''score'', JNumber (img_score img)),
        (''timestamp'', JNumber (timestamp img))]"

definition js_of_gallery :: "GalleryImage list \<Rightarrow> js_value" where
  "js_of_gallery g = JArray (map js_of_GalleryImage g)"

text \<open>
  The initializer of the gallery state. Its \<open>try\<close> block:
  \<^verbatim>\<open>const saved = localStorage.getItem('instapose_gallery');
return saved ? JSON.parse(saved) : [];\<close>
  (\<open>saved\<close> is falsy when it is \<open>null\<close> or the empty string), and the whole, whose
  \<open>catch\<close> logs and returns \<open>[]\<close>. The parsed value is returned as it is.
\<close>

definition load_try :: "(string \<Rightarrow> js_value option) \<Rightarrow> localStorage \<Rightarrow> exn + js_value" where
  "load_try JSON_parse st =
     (case getItem st ''instapose_gallery'' of
        None \<Rightarrow> Inr (JArray [])
      | Some saved \<Rightarrow>
          if saved = [] then Inr (JArray [])
          else (case JSON_parse saved of
                  None \<Rightarrow> Inl SyntaxError
                | Some v \<Rightarrow> Inr v))"

definition load :: "(string \<Rightarrow> js_value option) \<Rightarrow> localStorage \<Rightarrow> js_value" where
  "load JSON_parse st =
     (case load_try JSON_parse st of
        Inl e \<Rightarrow> JArray []
      | Inr v \<Rightarrow> v)"

text \<open>
  The persisting effect:
  \<^verbatim>\<open>try { localStorage.setItem('instapose_gallery', JSON.stringify(gallery)); }
catch (e) { console.error("Failed to save gallery", e); }\<close>
\<close>

definition persist :: "(js_value \<Rightarrow> string) \<Rightarrow> localStorage \<Rightarrow> GalleryImage list \<Rightarrow> localStorage" where
  "persist JSON_stringify st g =
     (case setItem st ''instapose_gallery'' (JSON_stringify (js_of_gallery g)) of
        Inl e \<Rightarrow> st
      | Inr st' \<Rightarrow> st')"

section \<open>The App component (App.tsx)\<close>

text \<open>
  The component's state hooks and its \<open>captureIntent\<close> ref, together with what the
  asynchronous handler leaves behind between two events: the remote calls it awaits
  (\<open>outstanding\<close>, each with the arguments the suspended handler still holds) and the
  timeouts it has set (\<open>timers\<close>).
\<close>

datatype intent = Analyze | Grade | Save

datatype request =
    AnalyzeScene string Gender PoseStyle
  | GenerateReference string Gender PoseStyle
  | ExtractLandmarks string
  | EvaluateMatch string string

datatype timer = FlashOff | ClearMessage

record app =
  isAnalyzing :: bool
  isGrading :: bool
  analysisResult :: "AnalysisResult option"
  poseFeedback :: "PoseFeedback option"
  generatedPoseImage :: "string option"
  poseLandmarks :: "PoseLandmarks option"
  gallery :: "GalleryImage list"
  selectedGender :: Gender
  selectedStyle :: PoseStyle
  error :: "string option"
  autoSaveMessage :: "string option"
  flash :: bool
  captureIntent :: intent
  outstanding :: "request list"
  timers :: "timer list"

text \<open>The state at mount; \<open>g\<close> is the gallery the initializer produced.\<close>

definition initial :: "GalleryImage list \<Rightarrow> app" where
  "initial g =
     \<lparr>isAnalyzing = False, isGrading = False, analysisResult = None, poseFeedback = None,
      generatedPoseImage = None, poseLandmarks = None, gallery = g,
      selectedGender = FEMALE, selectedStyle = CASUAL, error = None,
      autoSaveMessage = None, flash = False, captureIntent = Analyze,
      outstanding = [], timers = []\<rparr>"

text \<open>\<open>poseFeedback?.score || 0\<close>: 0 without feedback and for a falsy score.\<close>

definition score_or_0 :: "PoseFeedback option \<Rightarrow> number" where
  "score_or_0 fb = (case fb of None \<Rightarrow> 0 | Some f \<Rightarrow> if score f = 0 then 0 else score f)"

text \<open>
  \<open>handleCaptureFrame\<close> up to its first \<open>await\<close> (the save branch and the early return
  of the grade branch run to their end). \<open>now1\<close> and \<open>now2\<close> are the two readings of
  \<open>Date.now()\<close> in the save branch. The grade branch returns inside its \<open>try\<close>, so its
  \<open>finally\<close> still runs \<open>setIsGrading(false)\<close>.
\<close>

definition handleCaptureFrame :: "string \<Rightarrow> number \<Rightarrow> number \<Rightarrow> app \<Rightarrow> app" where
  "handleCaptureFrame base64Image now1 now2 a =
     (let a0 = a\<lparr>error := None, autoSaveMessage := None\<rparr> in
      case captureIntent a of
        Analyze \<Rightarrow>
          a0\<lparr>isAnalyzing := True, poseFeedback := None, poseLandmarks := None,
             outstanding := outstanding a @
               [AnalyzeScene base64Image (selectedGender a) (selectedStyle a)]\<rparr>
      | Grade \<Rightarrow>
          (case analysisResult a of
             None \<Rightarrow> a0\<lparr>isGrading := False\<rparr>
           | Some r \<Rightarrow>
               a0\<lparr>isGrading := True,
                  outstanding := outstanding a @
                    [EvaluateMatch base64Image (description (suggestedPose r))]\<rparr>)
      | Save \<Rightarrow>
          (let newImage =
             \<lparr>img_id = toString now1, imageData = base64Image,
              referenceImage = generatedPoseImage a,
              img_score = score_or_0 (poseFeedback a), timestamp = now2\<rparr>
           in a0\<lparr>flash := True,
                 gallery := gallery_append newImage (gallery a),
                 autoSaveMessage := Some ''Photo saved to Gallery!'',
                 timers := timers a @ [FlashOff, ClearMessage]\<rparr>))"

text \<open>A call has been answered: it is no longer awaited.\<close>

definition answered :: "request \<Rightarrow> app \<Rightarrow> app" where
  "answered r a = a\<lparr>outstanding := remove1 r (outstanding a)\<rparr>"

text \<open>The \<open>catch\<close> and \<open>finally\<close> of the analyze branch.\<close>

definition analyze_failed :: "app \<Rightarrow> app" where
  "analyze_failed a =
     a\<lparr>error := Some ''AI was unable to generate a suggestion. Please try again.'',
       isAnalyzing := False\<rparr>"

text \<open>
  The analyze branch after its first \<open>await\<close>: \<open>setAnalysisResult(result)\<close>, then the
  call of \<open>generatePoseReference\<close> with the handler's own gender and style.
\<close>

definition resume_scene ::
  "string \<Rightarrow> Gender \<Rightarrow> PoseStyle \<Rightarrow> AnalysisResult text_reply \<Rightarrow> app \<Rightarrow> app" where
  "resume_scene base64Image g st reply a =
     (let a1 = answered (AnalyzeScene base64Image g st) a in
      case analyzeSceneAndSuggest reply of
        Inl e \<Rightarrow> analyze_failed a1
      | Inr result \<Rightarrow>
          a1\<lparr>analysisResult := Some result,
             outstanding := outstanding a1 @
               [GenerateReference (description (suggestedPose result)) g st]\<rparr>)"

text \<open>After the second \<open>await\<close>: \<open>setGeneratedPoseImage\<close>, then \<open>extractPoseLandmarks\<close>.\<close>

definition resume_reference ::
  "string \<Rightarrow> Gender \<Rightarrow> PoseStyle \<Rightarrow> image_reply \<Rightarrow> app \<Rightarrow> app" where
  "resume_reference poseDescription g st reply a =
     (let a1 = answered (GenerateReference poseDescription g st) a in
      case generatePoseReference reply of
        Inl e \<Rightarrow> analyze_failed a1
      | Inr poseImageBase64 \<Rightarrow>
          a1\<lparr>generatedPoseImage := Some poseImageBase64,
             outstanding := outstanding a1 @ [ExtractLandmarks poseImageBase64]\<rparr>)"

text \<open>After the third \<open>await\<close>: \<open>setPoseLandmarks(landmarks)\<close>, then the \<open>finally\<close>.\<close>

definition resume_landmarks :: "string \<Rightarrow> PoseLandmarks text_reply \<Rightarrow> app \<Rightarrow> app" where
  "resume_landmarks poseImageBase64 reply a =
     (let a1 = answered (ExtractLandmarks poseImageBase64) a in
      a1\<lparr>poseLandmarks := extractPoseLandmarks reply, isAnalyzing := False\<rparr>)"

text \<open>The grade branch after its \<open>await\<close>, with its \<open>catch\<close> and \<open>finally\<close>.\<close>

definition resume_match :: "string \<Rightarrow> string \<Rightarrow> PoseFeedback text_reply \<Rightarrow> app \<Rightarrow> app" where
  "resume_match base64Image poseDescription reply a =
     (let a1 = answered (EvaluateMatch base64Image poseDescription) a in
      case evaluatePoseMatch reply of
        Inl e \<Rightarrow> a1\<lparr>error := Some ''Could not grade pose. Try again.'', isGrading := False\<rparr>
      | Inr feedback \<Rightarrow> a1\<lparr>poseFeedback := Some feedback, isGrading := False\<rparr>)"

text \<open>
  The analyze branch run to its end with no other event in between: the three awaits
  are answered in order by \<open>r1\<close>, \<open>r2\<close> and \<open>r3\<close>, and a failed step skips the rest.
\<close>

definition analyze_run ::
  "AnalysisResult text_reply \<Rightarrow> image_reply \<Rightarrow> PoseLandmarks text_reply \<Rightarrow>
   string \<Rightarrow> number \<Rightarrow> number \<Rightarrow> app \<Rightarrow> app" where
  "analyze_run r1 r2 r3 base64Image now1 now2 a =
     (let g = selectedGender a; st = selectedStyle a;
          a1 = handleCaptureFrame base64Image now1 now2 a;
          a2 = resume_scene base64Image g st r1 a1
      in case analyzeSceneAndSuggest r1 of
           Inl e \<Rightarrow> a2
         | Inr result \<Rightarrow>
             (let a3 = resume_reference (description (suggestedPose result)) g st r2 a2
              in case generatePoseReference r2 of
                   Inl e \<Rightarrow> a3
                 | Inr poseImageBase64 \<Rightarrow> resume_landmarks poseImageBase64 r3 a3))"

subsection \<open>The trigger actions and the rendered controls\<close>

text \<open>
  The camera's \<open>capture\<close> (components/CameraView.tsx) calls the handler with a frame
  when the video, the canvas and its context are there (\<open>frame = Some b\<close>) and does
  nothing otherwise. \<open>triggerAnalysis\<close>, \<open>triggerGrading\<close> and \<open>triggerSave\<close> set
  the intent and call it.
\<close>

definition capture :: "string option \<Rightarrow> number \<Rightarrow> number \<Rightarrow> app \<Rightarrow> app" where
  "capture frame now1 now2 a =
     (case frame of
        None \<Rightarrow> a
      | Some base64Image \<Rightarrow> handleCaptureFrame base64Image now1 now2 a)"

definition triggerAnalysis :: "string option \<Rightarrow> number \<Rightarrow> number \<Rightarrow> app \<Rightarrow> app" where
  "triggerAnalysis frame now1 now2 a = capture frame now1 now2 (a\<lparr>captureIntent := Analyze\<rparr>)"

definition triggerGrading :: "string option \<Rightarrow> number \<Rightarrow> number \<Rightarrow> app \<Rightarrow> app" where
  "triggerGrading frame now1 now2 a = capture frame now1 now2 (a\<lparr>captureIntent := Grade\<rparr>)"

definition triggerSave :: "string option \<Rightarrow> number \<Rightarrow> number \<Rightarrow> app \<Rightarrow> app" where
  "triggerSave frame now1 now2 a = capture frame now1 now2 (a\<lparr>captureIntent := Save\<rparr>)"

definition reset :: "app \<Rightarrow> app" where
  "reset a =
     a\<lparr>analysisResult := None, generatedPoseImage := None, poseLandmarks := None,
       poseFeedback := None, error := None, autoSaveMessage := None\<rparr>"

text \<open>
  Which controls the render offers. Without an analysis result there is the single
  "Suggest Pose" button and the two selectors; with one there are "Regenerate" (both
  call \<open>triggerAnalysis\<close>, \<open>disabled={isAnalyzing}\<close>), the grading button
  (\<open>disabled={isGrading}\<close>), "New Pose", and the "Capture Photo" button, which is rendered
  only if \<open>poseFeedback && poseFeedback.score > 50\<close> and has no \<open>disabled\<close> attribute.
\<close>

definition triggerAnalysis_enabled :: "app \<Rightarrow> bool" where
  "triggerAnalysis_enabled a = (\<not> isAnalyzing a)"

definition triggerGrading_enabled :: "app \<Rightarrow> bool" where
  "triggerGrading_enabled a = (analysisResult a \<noteq> None \<and> \<not> isGrading a)"

definition triggerSave_enabled :: "app \<Rightarrow> bool" where
  "triggerSave_enabled a =
     (analysisResult a \<noteq> None \<and>
      (case poseFeedback a of None \<Rightarrow> False | Some f \<Rightarrow> 50 < score f))"

definition reset_enabled :: "app \<Rightarrow> bool" where
  "reset_enabled a = (analysisResult a \<noteq> None)"

definition selectors_shown :: "app \<Rightarrow> bool" where
  "selectors_shown a = (analysisResult a = None)"

definition timer_fired :: "timer \<Rightarrow> app \<Rightarrow> app" where
  "timer_fired t a =
     (case t of
        FlashOff \<Rightarrow> a\<lparr>flash := False\<rparr>
      | ClearMessage \<Rightarrow> a\<lparr>autoSaveMessage := None\<rparr>)"

subsection \<open>Events\<close>

text \<open>
  Everything that can happen to the mounted component: a click on a rendered, enabled
  control, the answer to an outstanding remote call, or a timeout that was set.
  \<open>fire\<close> is \<open>None\<close> when the event cannot happen in the state.
\<close>

datatype event =
    TriggerAnalysis "string option" number number
  | TriggerGrading "string option" number number
  | TriggerSave "string option" number number
  | Reset
  | DeleteFromGallery string
  | SelectGender Gender
  | SelectStyle PoseStyle
  | SceneReply string Gender PoseStyle "AnalysisResult text_reply"
  | ReferenceReply string Gender PoseStyle image_reply
  | LandmarksReply string "PoseLandmarks text_reply"
  | MatchReply string string "PoseFeedback text_reply"
  | TimerFires timer

fun fire :: "event \<Rightarrow> app \<Rightarrow> app option" where
  "fire (TriggerAnalysis frame now1 now2) a =
     (if triggerAnalysis_enabled a then Some (triggerAnalysis frame now1 now2 a) else None)"
| "fire (TriggerGrading frame now1 now2) a =
     (if triggerGrading_enabled a then Some (triggerGrading frame now1 now2 a) else None)"
| "fire (TriggerSave frame now1 now2) a =
     (if triggerSave_enabled a then Some (triggerSave frame now1 now2 a) else None)"
| "fire Reset a = (if reset_enabled a then Some (reset a) else None)"
| "fire (DeleteFromGallery i) a =
     (if i \<in> img_id ` set (gallery a)
      then Some (a\<lparr>gallery := deleteFromGallery i (gallery a)\<rparr>) else None)"
| "fire (SelectGender g) a =
     (if selectors_shown a then Some (a\<lparr>selectedGender := g\<rparr>) else None)"
| "fire (SelectStyle st) a =
     (if selectors_shown a then Some (a\<lparr>selectedStyle := st\<rparr>) else None)"
| "fire (SceneReply b g st reply) a =
     (if AnalyzeScene b g st \<in> set (outstanding a)
      then Some (resume_scene b g st reply a) else None)"
| "fire (ReferenceReply d g st reply) a =
     (if GenerateReference d g st \<in> set (outstanding a)
      then Some (resume_reference d g st reply a) else None)"
| "fire (LandmarksReply p reply) a =
     (if ExtractLandmarks p \<in> set (outstanding a)
      then Some (resume_landmarks p reply a) else None)"
| "fire (MatchReply b d reply) a =
     (if EvaluateMatch b d \<in> set (outstanding a)
      then Some (resume_match b d reply a) else None)"
| "fire (TimerFires t) a =
     (if t \<in> set (timers a)
      then Some (timer_fired t (a\<lparr>timers := remove1 t (timers a)\<rparr>)) else None)"

fun run :: "event list \<Rightarrow> app \<Rightarrow> app option" where
  "run [] a = Some a"
| "run (e # es) a = (case fire e a of None \<Rightarrow> None | Some a' \<Rightarrow> run es a')"

inductive reachable :: "app \<Rightarrow> bool" where
  mounted: "reachable (initial g)"
| fired: "reachable a \<Longrightarrow> fire e a = Some a' \<Longrightarrow> reachable a'"

text \<open>The calls each pipeline is waiting for.\<close>

fun analyze_call :: "request \<Rightarrow> bool" where
  "analyze_call (EvaluateMatch b d) = False"
| "analyze_call r = True"

definition analyze_pending :: "app \<Rightarrow> nat" where
  "analyze_pending a = length (filter analyze_call (outstanding a))"

definition grade_pending :: "app \<Rightarrow> nat" where
  "grade_pending a = length (filter (\<lambda>r. \<not> analyze_call r) (outstanding a))"

text \<open>
  Each flag agrees with its pipeline: the flag is set exactly while one call of the
  pipeline is outstanding, and there is never a second one.
\<close>

definition busy_consistent :: "app \<Rightarrow> bool" where
  "busy_consistent a =
     (analyze_pending a = (if isAnalyzing a then 1 else 0)
      \<and> grade_pending a = (if isGrading a then 1 else 0))"

section \<open>Example values\<close>

definition example_analysis :: AnalysisResult where
  "example_analysis =
     \<lparr>environment = ''Bedroom'',
      lighting = \<lparr>quality = Good, direction = ''From left'', lighting_suggestion = ''Turn right''\<rparr>,
      background = \<lparr>clutterLevel = Clean, background_suggestion = ''Step away from wall''\<rparr>,
      suggestedPose = \<lparr>title = ''Candid Lean'', description = ''Lean on the wall'',
                       difficulty = Easy, steps = [''Chin up'', ''Hand in pocket'']\<rparr>\<rparr>"

definition example_feedback :: PoseFeedback where
  "example_feedback =
     \<lparr>score = 72, matchStatus = GoodMatch, adjustments = [''Chin up'', ''Relax shoulders'']\<rparr>"

definition example_image :: "string \<Rightarrow> GalleryImage" where
  "example_image i =
     \<lparr>img_id = i, imageData = ''AAAA'', referenceImage = None, img_score = 0, timestamp = 0\<rparr>"

definition example_reference :: image_reply where
  "example_reference = ImageResponse (Some [Some [TextPart ''here'', InlineData (Some ''RRRR'')]])"

text \<open>A session with a suggestion and a grade, and one right after a first suggestion.\<close>

definition graded_state :: app where
  "graded_state =
     (initial [])\<lparr>analysisResult := Some example_analysis,
                  poseFeedback := Some example_feedback,
                  generatedPoseImage := Some ''RRRR''\<rparr>"

definition suggested_state :: app where
  "suggested_state =
     analyze_run (Parsed example_analysis) example_reference NoText ''frame'' 0 0 (initial [])"

text \<open>
  A first suggestion is made; then "Regenerate" is clicked and, while its analysis is
  still outstanding, the grading button.
\<close>

definition both_busy_trace :: "event list" where
  "both_busy_trace =
     [TriggerAnalysis (Some ''f1'') 0 0,
      SceneReply ''f1'' FEMALE CASUAL (Parsed example_analysis),
      ReferenceReply ''Lean on the wall'' FEMALE CASUAL example_reference,
      LandmarksReply ''RRRR'' NoText,
      TriggerAnalysis (Some ''f2'') 0 0,
      TriggerGrading (Some ''f3'') 0 0]"

definition both_busy_state :: app where
  "both_busy_state =
     \<lparr>isAnalyzing = True, isGrading = True, analysisResult = Some example_analysis,
      poseFeedback = None, generatedPoseImage = Some ''RRRR'', poseLandmarks = None,
      gallery = [], selectedGender = FEMALE, selectedStyle = CASUAL, error = None,
      autoSaveMessage = None, flash = False, captureIntent = Grade,
      outstanding = [AnalyzeScene ''f2'' FEMALE CASUAL, EvaluateMatch ''f3'' ''Lean on the wall''],
      timers = []\<rparr>"

text \<open>
  The trace above goes on: the grading call is answered with a grade, then the scene
  analysis of "Regenerate" with a new suggestion. Feedback is recorded while the
  reference generation of the running analysis is outstanding.
\<close>

definition interleaved_trace :: "event list" where
  "interleaved_trace =
     both_busy_trace @
     [MatchReply ''f3'' ''Lean on the wall'' (Parsed example_feedback),
      SceneReply ''f2'' FEMALE CASUAL (Parsed example_analysis)]"

definition interleaved_state :: app where
  "interleaved_state =
     \<lparr>isAnalyzing = True, isGrading = False, analysisResult = Some example_analysis,
      poseFeedback = Some example_feedback, generatedPoseImage = Some ''RRRR'',
      poseLandmarks = None, gallery = [], selectedGender = FEMALE, selectedStyle = CASUAL,
      error = None, autoSaveMessage = None, flash = False, captureIntent = Grade,
      outstanding = [GenerateReference ''Lean on the wall'' FEMALE CASUAL],
      timers = []\<rparr>"


text \<open>
  The state after that trace once the reference image has arrived as well: the running
  analysis awaits its landmark extraction.
\<close>

definition awaiting_landmarks_state :: app where
  "awaiting_landmarks_state = interleaved_state\<lparr>outstanding := [ExtractLandmarks ''RRRR'']\<rparr>"

text \<open>
  A store holding \<open>blob\<close> under the gallery's key, and a store that accepts no
  write, as a browser's does once the quota is used up. The example parser and serializer
  agree with \<open>JSON.parse\<close> and \<open>JSON.stringify\<close> on the texts \<open>{}\<close>, \<open>[]\<close> and
  \<open>example_json\<close> (the JSON text of a gallery of one image) and on the values of
  these texts; the one other text parsed below, \<open>{oops\<close>, is not JSON.
\<close>

definition example_store :: "string \<Rightarrow> localStorage" where
  "example_store blob = \<lparr>items = [''instapose_gallery'' \<mapsto> blob], capacity = 5000000\<rparr>"

definition full_store :: localStorage where
  "full_store = \<lparr>items = Map.empty, capacity = 0\<rparr>"

definition quoted :: "string \<Rightarrow> string" where
  "quoted s = CHR 0x22 # s @ [CHR 0x22]"

definition example_json :: string where
  "example_json =
     ''[{'' @ quoted ''id'' @ '':'' @ quoted ''1'' @ '','' @
     quoted ''imageData'' @ '':'' @ quoted ''AAAA'' @ '','' @
     quoted ''referenceImage'' @ '':null,'' @
     quoted ''score'' @ '':0,'' @ quoted ''timestamp'' @ '':0}]''"

definition example_parse :: "string \<Rightarrow> js_value option" where
  "example_parse s =
     (if s = ''{}'' then Some (JObject [])
      else if s = ''[]'' then Some (JArray [])
      else if s = example_json then Some (js_of_gallery [example_image ''1''])
      else None)"

definition example_stringify :: "js_value \<Rightarrow> string" where
  "example_stringify v =
     (if v = JArray [] then ''[]''
      else if v = JObject [] then ''{}''
      else if v = js_of_gallery [example_image ''1''] then example_json
      else ''null'')"

section \<open>Properties of the gallery\<close>

lemma append_all_Nil: "append_all [] g = g"
  by (simp add: append_all_def)

lemma append_all_snoc: "append_all (news @ [e]) g = gallery_append e (append_all news g)"
  by (simp add: append_all_def)

lemma take_Cons_take: "0 < n \<Longrightarrow> take n (e # take n xs) = take n (e # xs)"
  by (cases n) (simp_all add: min_def)

lemma append_all_closed_form:
  "news \<noteq> [] \<or> length g \<le> 20 \<Longrightarrow> append_all news g = take 20 (rev news @ g)"
proof (induction news rule: rev_induct)
  case Nil
  then show ?case by (simp add: append_all_Nil)
next
  case (snoc e news)
  show ?case
  proof (cases "news = []")
    case True
    then show ?thesis by (simp add: append_all_def gallery_append_def)
  next
    case False
    with snoc.IH have IH: "append_all news g = take 20 (rev news @ g)" by simp
    have "append_all (news @ [e]) g = take 20 (e # take 20 (rev news @ g))"
      by (simp only: append_all_snoc gallery_append_def Let_def IH)
    also have "\<dots> = take 20 (e # (rev news @ g))"
      by (rule take_Cons_take) simp
    finally show ?thesis by simp
  qed
qed

lemma gallery_append_Cons: "gallery_append e g = e # take 19 g"
  by (simp add: gallery_append_def)

lemma gallery_append_full:
  assumes "length g = 20"
  shows "gallery_append e g = e # butlast g"
proof -
  have "take 19 g = butlast g"
    using assms by (simp add: butlast_conv_take)
  then show ?thesis
    by (simp add: gallery_append_Cons)
qed

text \<open>
  C3. Gallery bound and order. After any sequence of appends \<open>news\<close> (oldest first) to a
  gallery \<open>g\<close> -- at least one append, or a gallery that was within the bound -- the
  gallery has at most 20 entries and is the appended entries, newest first, followed by
  the entries of \<open>g\<close> in their order, cut to the first 20. Appending to a gallery of
  exactly 20 entries puts the new entry first and drops exactly the last (oldest) one.
\<close>

theorem gallery_bound_and_order:
  assumes "news \<noteq> [] \<or> length g \<le> 20"
  shows "length (append_all news g) \<le> 20
       \<and> append_all news g = take 20 (rev news @ g)
       \<and> (length g = 20 \<longrightarrow> gallery_append e g = e # butlast g)"
  using append_all_closed_form [OF assms] gallery_append_full [of g e] by simp

theorem gallery_bound_and_order_witness:
  "[example_image ''21''] \<noteq> []
   \<and> length (append_all [example_image ''21''] (replicate 20 (example_image ''1''))) \<le> 20
   \<and> append_all [example_image ''21''] (replicate 20 (example_image ''1''))
       = example_image ''21'' # replicate 19 (example_image ''1'')
   \<and> length (replicate 20 (example_image ''1'')) = 20
   \<and> gallery_append (example_image ''21'') (replicate 20 (example_image ''1''))
       = example_image ''21'' # replicate 19 (example_image ''1'')"
  using gallery_bound_and_order
    [of "[example_image ''21'']" "replicate 20 (example_image ''1'')" "example_image ''21''"]
  by (simp add: take_Cons' butlast_conv_take)

text \<open>
  C7. Removing by id is idempotent: removing the same id twice gives the sequence that
  removing it once gives; and removing an id that no entry has leaves the gallery as it
  is (the filter has no error case).
\<close>

theorem deleteFromGallery_idempotent:
  "deleteFromGallery i (deleteFromGallery i g) = deleteFromGallery i g
   \<and> (i \<notin> img_id ` set g \<longrightarrow> deleteFromGallery i g = g)"
  by (auto simp: deleteFromGallery_def filter_id_conv)

theorem deleteFromGallery_idempotent_witness:
  "''2'' \<notin> img_id ` set [example_image ''1'']
   \<and> deleteFromGallery ''2'' [example_image ''1''] = [example_image ''1'']
   \<and> deleteFromGallery ''1'' (deleteFromGallery ''1'' [example_image ''1'', example_image ''2''])
       = deleteFromGallery ''1'' [example_image ''1'', example_image ''2'']
   \<and> deleteFromGallery ''1'' [example_image ''1'', example_image ''2''] = [example_image ''2'']"
  using deleteFromGallery_idempotent [of "''2''" "[example_image ''1'']"]
        deleteFromGallery_idempotent [of "''1''" "[example_image ''1'', example_image ''2'']"]
  by (simp add: example_image_def deleteFromGallery_def)

section \<open>Loading and persisting\<close>

lemma example_json_facts:
  "example_json \<noteq> []" "example_json \<noteq> ''{}''" "example_json \<noteq> ''[]''"
  "length example_json = 77"
  by (simp_all add: example_json_def quoted_def)

lemma example_parse_simps:
  "example_parse ''{}'' = Some (JObject [])"
  "example_parse ''[]'' = Some (JArray [])"
  "example_parse ''{oops'' = None"
  "example_parse example_json = Some (js_of_gallery [example_image ''1''])"
  by (simp_all add: example_parse_def example_json_def quoted_def)

lemma example_store_simps:
  "getItem (example_store blob) ''instapose_gallery'' = Some blob"
  "getItem \<lparr>items = Map.empty, capacity = 0\<rparr> ''instapose_gallery'' = None"
  by (simp_all add: getItem_def example_store_def)

text \<open>
  Where the gallery initializer does return a sequence. It never raises: every exception
  of its \<open>try\<close> block ends in the \<open>catch\<close>. It returns the empty sequence when the
  slot is absent, holds the empty string, or holds a text that \<open>JSON.parse\<close> rejects,
  and it returns the stored sequence when the text is the JSON text of a sequence.
\<close>

lemma load_falls_back_to_empty:
  "(getItem st ''instapose_gallery'' = None \<longrightarrow> load JSON_parse st = JArray [])
   \<and> (getItem st ''instapose_gallery'' = Some saved \<longrightarrow>
        (saved = [] \<or> JSON_parse saved = None \<longrightarrow> load JSON_parse st = JArray [])
        \<and> (saved \<noteq> [] \<longrightarrow> JSON_parse saved = Some (JArray xs) \<longrightarrow>
             load JSON_parse st = JArray xs \<and> is_sequence (load JSON_parse st)))"
  by (auto simp: load_def load_try_def split: option.splits)

lemma load_falls_back_to_empty_examples:
  "getItem (example_store ''{oops'') ''instapose_gallery'' = Some ''{oops''
   \<and> example_parse ''{oops'' = None
   \<and> load example_parse (example_store ''{oops'') = JArray []
   \<and> getItem (example_store ''[]'') ''instapose_gallery'' = Some ''[]''
   \<and> example_parse ''[]'' = Some (JArray [])
   \<and> load example_parse (example_store ''[]'') = JArray []
   \<and> getItem \<lparr>items = Map.empty, capacity = 0\<rparr> ''instapose_gallery'' = None
   \<and> load example_parse \<lparr>items = Map.empty, capacity = 0\<rparr> = JArray []"
proof -
  note f = example_store_simps example_parse_simps
  from load_falls_back_to_empty [of "example_store ''{oops''" example_parse "''{oops''"]
  have 1: "load example_parse (example_store ''{oops'') = JArray []"
    by (simp add: f)
  from load_falls_back_to_empty [of "example_store ''[]''" example_parse "''[]''" "[]"]
  have 2: "load example_parse (example_store ''[]'') = JArray []"
    by (simp add: f)
  from load_falls_back_to_empty [of "\<lparr>items = Map.empty, capacity = 0\<rparr>" example_parse]
  have 3: "load example_parse \<lparr>items = Map.empty, capacity = 0\<rparr> = JArray []"
    by (simp add: f)
  from 1 2 3 show ?thesis by (simp add: f)
qed

text \<open>
  C6. Loading on missing or corrupt data is to yield a sequence, the empty one for
  corrupt data. The initializer misses one case: with the text \<open>{}\<close> in the slot
  (valid JSON, not a gallery) nothing is thrown, so the \<open>catch\<close> is not reached, and
  the parsed object is returned as the gallery. It is not a sequence.
\<close>

theorem load_returns_non_sequence:
  "getItem (example_store ''{}'') ''instapose_gallery'' = Some ''{}''
   \<and> example_parse ''{}'' = Some (JObject [])
   \<and> load example_parse (example_store ''{}'') = JObject []
   \<and> \<not> is_sequence (load example_parse (example_store ''{}''))"
  by (simp add: load_def load_try_def example_store_simps example_parse_simps)

lemma js_of_GalleryImage_inj: "js_of_GalleryImage x = js_of_GalleryImage y \<Longrightarrow> x = y"
  by (cases "referenceImage x"; cases "referenceImage y")
     (auto simp: js_of_GalleryImage_def)

lemma js_of_gallery_inj: "js_of_gallery g = js_of_gallery g' \<Longrightarrow> g = g'"
proof -
  assume "js_of_gallery g = js_of_gallery g'"
  then have "map js_of_GalleryImage g = map js_of_GalleryImage g'"
    by (simp add: js_of_gallery_def)
  moreover have "inj js_of_GalleryImage"
    by (rule injI) (rule js_of_GalleryImage_inj)
  ultimately show "g = g'"
    by (simp add: inj_map_eq_map)
qed

lemma persist_accepted:
  "\<not> isl (setItem st ''instapose_gallery'' (S (js_of_gallery g))) \<Longrightarrow>
   getItem (persist S st g) ''instapose_gallery'' = Some (S (js_of_gallery g))"
  by (simp add: persist_def setItem_def getItem_def split: if_splits)

lemma persist_refused:
  "isl (setItem st ''instapose_gallery'' (S (js_of_gallery g))) \<Longrightarrow> persist S st g = st"
  by (simp add: persist_def setItem_def split: if_splits)

lemma load_stored:
  "getItem st ''instapose_gallery'' = Some saved \<Longrightarrow> saved \<noteq> [] \<Longrightarrow> P saved = Some v \<Longrightarrow>
   load P st = v"
  by (simp add: load_def load_try_def)

text \<open>
  C8, as the code has it. \<open>JSON.stringify\<close> and \<open>JSON.parse\<close> are the platform's:
  the parser is assumed to return the value whose serialization it reads, and the
  serialization of an array is assumed to be non-empty text (it is at least \<open>[]\<close>).
  Then for every gallery \<open>g\<close> whose write the store accepts, reloading after persisting
  returns the array of the records of \<open>g\<close>, in their order, and \<open>g\<close> is the only
  gallery it is the array of. A write the store refuses is swallowed by the \<open>catch\<close>:
  the store is left as it was.
\<close>

theorem persist_load_roundtrip:
  assumes "JSON_parse (JSON_stringify (js_of_gallery g)) = Some (js_of_gallery g)"
    and "JSON_stringify (js_of_gallery g) \<noteq> []"
  shows "(\<not> isl (setItem st ''instapose_gallery'' (JSON_stringify (js_of_gallery g))) \<longrightarrow>
            load JSON_parse (persist JSON_stringify st g) = js_of_gallery g
          \<and> (\<forall>g'. load JSON_parse (persist JSON_stringify st g) = js_of_gallery g' \<longrightarrow> g' = g))
       \<and> (isl (setItem st ''instapose_gallery'' (JSON_stringify (js_of_gallery g))) \<longrightarrow>
            persist JSON_stringify st g = st)"
proof -
  have "load JSON_parse (persist JSON_stringify st g) = js_of_gallery g"
    if "\<not> isl (setItem st ''instapose_gallery'' (JSON_stringify (js_of_gallery g)))"
    using persist_accepted [of st JSON_stringify g, OF that] assms
    by (simp add: load_stored)
  then show ?thesis
    by (auto dest: js_of_gallery_inj simp: persist_refused)
qed

lemma example_stringify_image:
  "example_stringify (js_of_gallery [example_image ''1'']) = example_json"
proof -
  have "js_of_gallery [example_image ''1''] \<noteq> JArray []"
    and "js_of_gallery [example_image ''1''] \<noteq> JObject []"
    by (simp_all add: js_of_gallery_def)
  then show ?thesis
    by (simp add: example_stringify_def)
qed

theorem persist_load_roundtrip_witness:
  "example_parse (example_stringify (js_of_gallery [example_image ''1'']))
     = Some (js_of_gallery [example_image ''1''])
   \<and> example_stringify (js_of_gallery [example_image ''1'']) \<noteq> []
   \<and> \<not> isl (setItem (example_store ''{}'') ''instapose_gallery''
              (example_stringify (js_of_gallery [example_image ''1''])))
   \<and> load example_parse (persist example_stringify (example_store ''{}'') [example_image ''1''])
       = js_of_gallery [example_image ''1'']
   \<and> isl (setItem full_store ''instapose_gallery''
              (example_stringify (js_of_gallery [example_image ''1''])))
   \<and> persist example_stringify full_store [example_image ''1''] = full_store"
proof -
  note s = example_stringify_image
  note j = example_json_facts
  note p = example_parse_simps(4)
  have q: "\<not> isl (setItem (example_store ''{}'') ''instapose_gallery'' example_json)"
    by (simp add: setItem_def example_store_def j)
  have r: "isl (setItem full_store ''instapose_gallery'' example_json)"
    by (simp add: setItem_def full_store_def j)
  from persist_load_roundtrip [of example_parse example_stringify "[example_image ''1'']"
         "example_store ''{}''"] s p j(1) q
  have 1: "load example_parse (persist example_stringify (example_store ''{}'') [example_image ''1''])
             = js_of_gallery [example_image ''1'']"
    by simp
  from persist_load_roundtrip [of example_parse example_stringify "[example_image ''1'']"
         full_store] s p j(1) r
  have 2: "persist example_stringify full_store [example_image ''1''] = full_store"
    by simp
  from 1 2 s p j(1) q r show ?thesis by simp
qed

text \<open>
  C8, as stated, fails: a gallery of one image is persisted into a store that accepts
  no write and reloaded, and the reload gives the empty sequence. The parser and the
  serializer round-trip this gallery; the write is what is lost.
\<close>

theorem persist_refused_loses_gallery:
  "example_parse (example_stringify (js_of_gallery [example_image ''1'']))
     = Some (js_of_gallery [example_image ''1''])
   \<and> load example_parse (persist example_stringify full_store [example_image ''1'']) = JArray []
   \<and> js_of_gallery [example_image ''1''] \<noteq> JArray []"
proof -
  have w: "persist example_stringify full_store [example_image ''1''] = full_store"
    by (simp add: persist_def setItem_def full_store_def example_stringify_image
          example_json_facts)
  have l: "load example_parse full_store = JArray []"
    by (simp add: load_def load_try_def getItem_def full_store_def)
  have v: "js_of_gallery [example_image ''1''] \<noteq> JArray []"
    by (simp add: js_of_gallery_def)
  from w l v show ?thesis
    by (simp add: example_stringify_image example_parse_simps)
qed

section \<open>The capture dispatch\<close>

lemma toString_7: "toString 7 = ''7''"
  by (simp add: toString_def decimal.simps)

lemma save_gallery:
  "captureIntent a = Save \<Longrightarrow>
   gallery (handleCaptureFrame b now1 now2 a)
     = gallery_append \<lparr>img_id = toString now1, imageData = b,
          referenceImage = generatedPoseImage a,
          img_score = score_or_0 (poseFeedback a), timestamp = now2\<rparr> (gallery a)"
  by (simp add: handleCaptureFrame_def)



text \<open>
  C5. A grade dispatch without an analysis result makes no remote call (no call is added
  to the outstanding ones) and leaves the feedback, the analysis result, the reference
  image, the landmarks and the gallery as they were. All it does is what every dispatch
  does first (clear the error and the toast message) and the \<open>finally\<close> of the grade
  branch (\<open>setIsGrading(false)\<close>).
\<close>

theorem grade_without_analysis_is_noop:
  assumes "captureIntent a = Grade" and "analysisResult a = None"
  shows "handleCaptureFrame b now1 now2 a
           = a\<lparr>error := None, autoSaveMessage := None, isGrading := False\<rparr>
       \<and> outstanding (handleCaptureFrame b now1 now2 a) = outstanding a
       \<and> poseFeedback (handleCaptureFrame b now1 now2 a) = poseFeedback a
       \<and> analysisResult (handleCaptureFrame b now1 now2 a) = None
       \<and> generatedPoseImage (handleCaptureFrame b now1 now2 a) = generatedPoseImage a
       \<and> poseLandmarks (handleCaptureFrame b now1 now2 a) = poseLandmarks a
       \<and> gallery (handleCaptureFrame b now1 now2 a) = gallery a"
  using assms by (simp add: handleCaptureFrame_def)

theorem grade_without_analysis_is_noop_witness:
  "captureIntent ((initial [])\<lparr>captureIntent := Grade\<rparr>) = Grade
   \<and> analysisResult ((initial [])\<lparr>captureIntent := Grade\<rparr>) = None
   \<and> handleCaptureFrame ''frame'' 1 2 ((initial [])\<lparr>captureIntent := Grade\<rparr>)
       = (initial [])\<lparr>captureIntent := Grade\<rparr>
   \<and> outstanding (handleCaptureFrame ''frame'' 1 2 ((initial [])\<lparr>captureIntent := Grade\<rparr>)) = []"
  using grade_without_analysis_is_noop [of "(initial [])\<lparr>captureIntent := Grade\<rparr>" "''frame''" 1 2]
  by (simp add: initial_def)



section \<open>The analyze pipeline\<close>

lemmas analyze_run_defs =
  analyze_run_def handleCaptureFrame_def resume_scene_def resume_reference_def
  resume_landmarks_def answered_def analyze_failed_def Let_def

lemma example_scene: "analyzeSceneAndSuggest (Parsed example_analysis) = Inr example_analysis"
  by (simp add: analyzeSceneAndSuggest_def parsed_text_def)

lemma example_description: "description (suggestedPose example_analysis) = ''Lean on the wall''"
  by (simp add: example_analysis_def)

lemma example_reference_image: "generatePoseReference example_reference = Inr ''RRRR''"
  by (simp add: generatePoseReference_def example_reference_def imagePart_def)

lemma suggested_state_fields:
  "analysisResult suggested_state = Some example_analysis"
  "generatedPoseImage suggested_state = Some ''RRRR''"
  "poseFeedback suggested_state = None"
  "isAnalyzing suggested_state = False"
  "isGrading suggested_state = False"
  "outstanding suggested_state = []"
  "gallery suggested_state = []"
  by (simp_all add: suggested_state_def analyze_run_defs initial_def example_reference_image
        example_scene)

text \<open>
  \<open>analyze_run\<close> is what the events do when the analysis trigger is fired with a
  frame and the calls of the pipeline are answered one after the other.
\<close>

lemma analyze_run_as_events:
  assumes "\<not> isAnalyzing a"
    and "analyzeSceneAndSuggest r1 = Inr result"
    and "generatePoseReference r2 = Inr im"
  shows "run [TriggerAnalysis (Some b) n1 n2,
              SceneReply b (selectedGender a) (selectedStyle a) r1,
              ReferenceReply (description (suggestedPose result)) (selectedGender a) (selectedStyle a) r2,
              LandmarksReply im r3] a
         = Some (analyze_run r1 r2 r3 b n1 n2 (a\<lparr>captureIntent := Analyze\<rparr>))"
  using assms
  by (simp add: analyze_run_def triggerAnalysis_enabled_def triggerAnalysis_def capture_def
        handleCaptureFrame_def resume_scene_def resume_reference_def resume_landmarks_def
        answered_def Let_def)

lemma analyze_run_as_events_scene_fails:
  assumes "\<not> isAnalyzing a"
    and "analyzeSceneAndSuggest r1 = Inl e"
  shows "run [TriggerAnalysis (Some b) n1 n2,
              SceneReply b (selectedGender a) (selectedStyle a) r1] a
         = Some (analyze_run r1 r2 r3 b n1 n2 (a\<lparr>captureIntent := Analyze\<rparr>))"
  using assms
  by (simp add: analyze_run_def triggerAnalysis_enabled_def triggerAnalysis_def capture_def
        handleCaptureFrame_def resume_scene_def answered_def analyze_failed_def Let_def)

lemma analyze_run_as_events_reference_fails:
  assumes "\<not> isAnalyzing a"
    and "analyzeSceneAndSuggest r1 = Inr result"
    and "generatePoseReference r2 = Inl e"
  shows "run [TriggerAnalysis (Some b) n1 n2,
              SceneReply b (selectedGender a) (selectedStyle a) r1,
              ReferenceReply (description (suggestedPose result)) (selectedGender a) (selectedStyle a) r2] a
         = Some (analyze_run r1 r2 r3 b n1 n2 (a\<lparr>captureIntent := Analyze\<rparr>))"
  using assms
  by (simp add: analyze_run_def triggerAnalysis_enabled_def triggerAnalysis_def capture_def
        handleCaptureFrame_def resume_scene_def resume_reference_def
        answered_def analyze_failed_def Let_def)

lemma scene_failure_step:
  assumes "AnalyzeScene b g st \<in> set (outstanding s)" and "isl (analyzeSceneAndSuggest r1)"
  shows "fire (SceneReply b g st r1) s
           = Some (s\<lparr>outstanding := remove1 (AnalyzeScene b g st) (outstanding s),
                     error := Some ''AI was unable to generate a suggestion. Please try again.'',
                     isAnalyzing := False\<rparr>)"
proof -
  from assms(2) obtain e where "analyzeSceneAndSuggest r1 = Inl e"
    by (cases "analyzeSceneAndSuggest r1") simp_all
  with assms(1) show ?thesis
    by (simp add: resume_scene_def answered_def analyze_failed_def)
qed

lemma reference_failure_step:
  assumes "GenerateReference d g st \<in> set (outstanding s)" and "isl (generatePoseReference r2)"
  shows "fire (ReferenceReply d g st r2) s
           = Some (s\<lparr>outstanding := remove1 (GenerateReference d g st) (outstanding s),
                     error := Some ''AI was unable to generate a suggestion. Please try again.'',
                     isAnalyzing := False\<rparr>)"
proof -
  from assms(2) obtain e where "generatePoseReference r2 = Inl e"
    by (cases "generatePoseReference r2") simp_all
  with assms(1) show ?thesis
    by (simp add: resume_reference_def answered_def analyze_failed_def)
qed

lemma analyze_run_failure:
  assumes "captureIntent a = Analyze"
    and "isl (analyzeSceneAndSuggest r1) \<or> isl (generatePoseReference r2)"
  shows "error (analyze_run r1 r2 r3 b now1 now2 a)
           = Some ''AI was unable to generate a suggestion. Please try again.''
       \<and> isAnalyzing (analyze_run r1 r2 r3 b now1 now2 a) = False
       \<and> poseFeedback (analyze_run r1 r2 r3 b now1 now2 a) = None
       \<and> poseLandmarks (analyze_run r1 r2 r3 b now1 now2 a) = None
       \<and> generatedPoseImage (analyze_run r1 r2 r3 b now1 now2 a) = generatedPoseImage a
       \<and> gallery (analyze_run r1 r2 r3 b now1 now2 a) = gallery a
       \<and> length (outstanding (analyze_run r1 r2 r3 b now1 now2 a)) = length (outstanding a)
       \<and> analysisResult (analyze_run r1 r2 r3 b now1 now2 a)
           = (case analyzeSceneAndSuggest r1 of
                Inl e \<Rightarrow> analysisResult a
              | Inr result \<Rightarrow> Some result)"
proof (cases "analyzeSceneAndSuggest r1")
  case (Inl e)
  with assms(1) show ?thesis
    by (simp add: analyze_run_defs length_remove1)
next
  case (Inr result)
  with assms(2) obtain e where "generatePoseReference r2 = Inl e"
    by (cases "generatePoseReference r2") simp_all
  with Inr assms(1) show ?thesis
    by (simp add: analyze_run_defs length_remove1)
qed

text \<open>
  C1, as the code has it. There is no rollback. In every state, whatever happened since
  the dispatch, a failing step of the analyze pipeline (a scene analysis that fails, or
  a reference generation that fails; the landmark extraction cannot fail the pipeline)
  sets the one error message and clears the analyzing flag, makes no further call, and
  changes nothing else: analysis result, feedback, reference image, landmarks and
  gallery stay as they were just before the failure. When no other event comes between
  the dispatch and the failing step, the session therefore ends with feedback and
  landmarks cleared (the dispatch clears them), the gallery and the reference image as
  before the attempt, no call of the attempt outstanding, and the analysis result of
  before the attempt if the scene analysis failed, the new one if it had succeeded.
\<close>

theorem analyze_failure_keeps_completed_steps:
  "(AnalyzeScene b g st \<in> set (outstanding s) \<longrightarrow> isl (analyzeSceneAndSuggest r1) \<longrightarrow>
      fire (SceneReply b g st r1) s
        = Some (s\<lparr>outstanding := remove1 (AnalyzeScene b g st) (outstanding s),
                  error := Some ''AI was unable to generate a suggestion. Please try again.'',
                  isAnalyzing := False\<rparr>))
   \<and> (GenerateReference d g st \<in> set (outstanding s) \<longrightarrow> isl (generatePoseReference r2) \<longrightarrow>
      fire (ReferenceReply d g st r2) s
        = Some (s\<lparr>outstanding := remove1 (GenerateReference d g st) (outstanding s),
                  error := Some ''AI was unable to generate a suggestion. Please try again.'',
                  isAnalyzing := False\<rparr>))
   \<and> (captureIntent a = Analyze \<longrightarrow>
      isl (analyzeSceneAndSuggest r1) \<or> isl (generatePoseReference r2) \<longrightarrow>
        error (analyze_run r1 r2 r3 b now1 now2 a)
           = Some ''AI was unable to generate a suggestion. Please try again.''
       \<and> isAnalyzing (analyze_run r1 r2 r3 b now1 now2 a) = False
       \<and> poseFeedback (analyze_run r1 r2 r3 b now1 now2 a) = None
       \<and> poseLandmarks (analyze_run r1 r2 r3 b now1 now2 a) = None
       \<and> generatedPoseImage (analyze_run r1 r2 r3 b now1 now2 a) = generatedPoseImage a
       \<and> gallery (analyze_run r1 r2 r3 b now1 now2 a) = gallery a
       \<and> length (outstanding (analyze_run r1 r2 r3 b now1 now2 a)) = length (outstanding a)
       \<and> analysisResult (analyze_run r1 r2 r3 b now1 now2 a)
           = (case analyzeSceneAndSuggest r1 of
                Inl e \<Rightarrow> analysisResult a
              | Inr result \<Rightarrow> Some result))"
  using scene_failure_step [of b g st s r1] reference_failure_step [of d g st s r2]
    analyze_run_failure [of a r1 r2 r3 b now1 now2]
  by blast

theorem analyze_failure_keeps_completed_steps_witness:
  "AnalyzeScene ''f2'' FEMALE CASUAL \<in> set (outstanding both_busy_state)
   \<and> isl (analyzeSceneAndSuggest Rejected)
   \<and> fire (SceneReply ''f2'' FEMALE CASUAL Rejected) both_busy_state
       = Some (both_busy_state
           \<lparr>outstanding := [EvaluateMatch ''f3'' ''Lean on the wall''],
            error := Some ''AI was unable to generate a suggestion. Please try again.'',
            isAnalyzing := False\<rparr>)
   \<and> GenerateReference ''Lean on the wall'' FEMALE CASUAL \<in> set (outstanding interleaved_state)
   \<and> isl (generatePoseReference ImageRejected)
   \<and> fire (ReferenceReply ''Lean on the wall'' FEMALE CASUAL ImageRejected) interleaved_state
       = Some (interleaved_state
           \<lparr>outstanding := [],
            error := Some ''AI was unable to generate a suggestion. Please try again.'',
            isAnalyzing := False\<rparr>)
   \<and> poseFeedback interleaved_state = Some example_feedback
   \<and> captureIntent graded_state = Analyze
   \<and> error (analyze_run Rejected example_reference NoText ''frame'' 0 0 graded_state)
       = Some ''AI was unable to generate a suggestion. Please try again.''
   \<and> poseFeedback (analyze_run Rejected example_reference NoText ''frame'' 0 0 graded_state) = None
   \<and> generatedPoseImage (analyze_run Rejected example_reference NoText ''frame'' 0 0 graded_state)
       = Some ''RRRR''
   \<and> analysisResult (analyze_run Rejected example_reference NoText ''frame'' 0 0 graded_state)
       = Some example_analysis"
proof -
  have m1: "AnalyzeScene ''f2'' FEMALE CASUAL \<in> set (outstanding both_busy_state)"
    by (simp add: both_busy_state_def)
  have m2: "GenerateReference ''Lean on the wall'' FEMALE CASUAL \<in> set (outstanding interleaved_state)"
    by (simp add: interleaved_state_def)
  have f1: "analyzeSceneAndSuggest Rejected = Inl Rejection"
    by (simp add: analyzeSceneAndSuggest_def parsed_text_def)
  have f2: "generatePoseReference ImageRejected = Inl Rejection"
    by (simp add: generatePoseReference_def)
  have i: "captureIntent graded_state = Analyze"
    by (simp add: graded_state_def initial_def)
  have g: "generatedPoseImage graded_state = Some ''RRRR''"
    "analysisResult graded_state = Some example_analysis"
    "poseFeedback interleaved_state = Some example_feedback"
    by (simp_all add: graded_state_def interleaved_state_def)
  have o: "remove1 (AnalyzeScene ''f2'' FEMALE CASUAL) (outstanding both_busy_state)
             = [EvaluateMatch ''f3'' ''Lean on the wall'']"
    "remove1 (GenerateReference ''Lean on the wall'' FEMALE CASUAL) (outstanding interleaved_state) = []"
    by (simp_all add: both_busy_state_def interleaved_state_def)
  from analyze_failure_keeps_completed_steps
         [of "''f2''" FEMALE CASUAL both_busy_state Rejected "''dd''" ImageRejected
             graded_state NoText 0 0]
       m1 f1
  have 1: "fire (SceneReply ''f2'' FEMALE CASUAL Rejected) both_busy_state
       = Some (both_busy_state
           \<lparr>outstanding := [EvaluateMatch ''f3'' ''Lean on the wall''],
            error := Some ''AI was unable to generate a suggestion. Please try again.'',
            isAnalyzing := False\<rparr>)"
    by (simp add: o del: fire.simps)
  from analyze_failure_keeps_completed_steps
         [of "''f2''" FEMALE CASUAL interleaved_state Rejected "''Lean on the wall''" ImageRejected
             graded_state NoText 0 0]
       m2 f2
  have 2: "fire (ReferenceReply ''Lean on the wall'' FEMALE CASUAL ImageRejected) interleaved_state
       = Some (interleaved_state
           \<lparr>outstanding := [],
            error := Some ''AI was unable to generate a suggestion. Please try again.'',
            isAnalyzing := False\<rparr>)"
    by (simp add: o del: fire.simps)
  from analyze_failure_keeps_completed_steps
         [of "''frame''" FEMALE CASUAL graded_state Rejected "''dd''" example_reference
             graded_state NoText 0 0]
       i f1 g
  have 3: "error (analyze_run Rejected example_reference NoText ''frame'' 0 0 graded_state)
       = Some ''AI was unable to generate a suggestion. Please try again.''
   \<and> poseFeedback (analyze_run Rejected example_reference NoText ''frame'' 0 0 graded_state) = None
   \<and> generatedPoseImage (analyze_run Rejected example_reference NoText ''frame'' 0 0 graded_state)
       = Some ''RRRR''
   \<and> analysisResult (analyze_run Rejected example_reference NoText ''frame'' 0 0 graded_state)
       = Some example_analysis"
    by (simp del: fire.simps)
  from m1 m2 f1 f2 i g(3) 1 2 3 show ?thesis
    by (simp del: fire.simps)
qed

text \<open>
  C1, as stated, fails: from the state at mount, where nothing is present, an analyze
  dispatch whose scene analysis succeeds and whose reference generation is rejected ends
  with the new analysis result in the session.
\<close>

theorem analyze_failure_retains_analysis:
  "isl (generatePoseReference ImageRejected)
   \<and> analysisResult (initial []) = None
   \<and> analysisResult
        (analyze_run (Parsed example_analysis) ImageRejected NoText ''frame'' 0 0 (initial []))
       = Some example_analysis"
  by (simp add: analyze_run_defs initial_def generatePoseReference_def example_scene)






section \<open>The save trigger\<close>

text \<open>
  C4, as the code has it. The save dispatch itself is never blocked by a missing grade:
  dispatched with no feedback recorded, it puts a gallery image with score 0 first in
  the gallery. But the render offers the save trigger only while an analysis result is
  present and the recorded feedback has a score above 50.
\<close>

theorem save_offered_only_above_50:
  "(fire (TriggerSave frame now1 now2) a \<noteq> None
      \<longleftrightarrow> analysisResult a \<noteq> None \<and> (\<exists>f. poseFeedback a = Some f \<and> 50 < score f))
   \<and> (captureIntent a = Save \<longrightarrow> poseFeedback a = None \<longrightarrow>
        gallery (handleCaptureFrame b now1 now2 a)
          = \<lparr>img_id = toString now1, imageData = b, referenceImage = generatedPoseImage a,
             img_score = 0, timestamp = now2\<rparr> # take 19 (gallery a))"
proof -
  have "fire (TriggerSave frame now1 now2) a \<noteq> None
      \<longleftrightarrow> analysisResult a \<noteq> None \<and> (\<exists>f. poseFeedback a = Some f \<and> 50 < score f)"
    by (cases "poseFeedback a") (simp_all add: triggerSave_enabled_def)
  moreover have "gallery (handleCaptureFrame b now1 now2 a)
          = \<lparr>img_id = toString now1, imageData = b, referenceImage = generatedPoseImage a,
             img_score = 0, timestamp = now2\<rparr> # take 19 (gallery a)"
    if "captureIntent a = Save" "poseFeedback a = None"
    using that by (simp add: save_gallery gallery_append_Cons score_or_0_def)
  ultimately show ?thesis by blast
qed

theorem save_offered_only_above_50_witness:
  "captureIntent (suggested_state\<lparr>captureIntent := Save\<rparr>) = Save
   \<and> poseFeedback (suggested_state\<lparr>captureIntent := Save\<rparr>) = None
   \<and> fire (TriggerSave (Some ''frame'') 7 7) (suggested_state\<lparr>captureIntent := Save\<rparr>) = None
   \<and> gallery (handleCaptureFrame ''frame'' 7 7 (suggested_state\<lparr>captureIntent := Save\<rparr>))
       = [\<lparr>img_id = ''7'', imageData = ''frame'', referenceImage = Some ''RRRR'',
           img_score = 0, timestamp = 7\<rparr>]"
proof -
  let ?a = "suggested_state\<lparr>captureIntent := Save\<rparr>"
  have i: "captureIntent ?a = Save" by simp
  have f: "poseFeedback ?a = None" by (simp add: suggested_state_fields)
  have g: "generatedPoseImage ?a = Some ''RRRR''" "gallery ?a = []"
    by (simp_all add: suggested_state_fields)
  from save_offered_only_above_50 [of "Some ''frame''" 7 7 ?a "''frame''"] i f
  have "fire (TriggerSave (Some ''frame'') 7 7) ?a = None
      \<and> gallery (handleCaptureFrame ''frame'' 7 7 ?a)
          = \<lparr>img_id = toString 7, imageData = ''frame'', referenceImage = generatedPoseImage ?a,
             img_score = 0, timestamp = 7\<rparr> # take 19 (gallery ?a)"
    by (simp del: fire.simps)
  with i f show ?thesis by (simp add: g toString_7 del: fire.simps)
qed

text \<open>
  C4, as stated, fails: right after a pose has been suggested (analysis result and
  reference image present, nothing graded yet) the save trigger is not there.
\<close>

theorem save_not_offered_before_grading:
  "analysisResult suggested_state = Some example_analysis
   \<and> generatedPoseImage suggested_state = Some ''RRRR''
   \<and> poseFeedback suggested_state = None
   \<and> fire (TriggerSave (Some ''frame'') 1 1) suggested_state = None"
  by (simp add: suggested_state_fields triggerSave_enabled_def)

section \<open>The busy flags\<close>

lemma filter_pos: "r \<in> set xs \<Longrightarrow> P r \<Longrightarrow> 0 < length (filter P xs)"
  by (induction xs) auto

lemma length_filter_remove1_hit:
  "r \<in> set xs \<Longrightarrow> P r \<Longrightarrow> Suc (length (filter P (remove1 r xs))) = length (filter P xs)"
proof (induction xs)
  case Nil
  then show ?case by simp
next
  case (Cons x xs)
  show ?case
  proof (cases "r = x")
    case True
    with Cons.prems show ?thesis by simp
  next
    case False
    with Cons show ?thesis by simp
  qed
qed

lemma filter_remove1_miss: "\<not> P r \<Longrightarrow> filter P (remove1 r xs) = filter P xs"
  by (induction xs) auto

lemma length_filter_remove1:
  "r \<in> set xs \<Longrightarrow>
   length (filter P (remove1 r xs)) = (if P r then length (filter P xs) - 1 else length (filter P xs))"
  using length_filter_remove1_hit [of r xs P] filter_remove1_miss [of P r xs]
  by (cases "P r") simp_all

lemma busy_consistent_initial: "busy_consistent (initial g)"
  by (simp add: busy_consistent_def initial_def analyze_pending_def grade_pending_def)

lemma busy_consistent_trigger_analysis:
  "busy_consistent a \<Longrightarrow> \<not> isAnalyzing a \<Longrightarrow> busy_consistent (triggerAnalysis frame n1 n2 a)"
  by (cases frame)
     (simp_all add: busy_consistent_def triggerAnalysis_def capture_def handleCaptureFrame_def
        analyze_pending_def grade_pending_def)

lemma busy_consistent_trigger_grading:
  "busy_consistent a \<Longrightarrow> analysisResult a \<noteq> None \<Longrightarrow> \<not> isGrading a \<Longrightarrow>
   busy_consistent (triggerGrading frame n1 n2 a)"
  by (cases frame)
     (auto simp: busy_consistent_def triggerGrading_def capture_def handleCaptureFrame_def
        analyze_pending_def grade_pending_def)

lemma busy_consistent_trigger_save:
  "busy_consistent a \<Longrightarrow> busy_consistent (triggerSave frame n1 n2 a)"
  by (cases frame)
     (simp_all add: busy_consistent_def triggerSave_def capture_def handleCaptureFrame_def
        analyze_pending_def grade_pending_def)

lemma busy_consistent_scene:
  assumes "busy_consistent a" and "AnalyzeScene b g st \<in> set (outstanding a)"
  shows "busy_consistent (resume_scene b g st reply a)"
proof -
  have p: "0 < analyze_pending a"
    unfolding analyze_pending_def by (rule filter_pos [OF assms(2)]) simp
  with assms(1) have "isAnalyzing a" and "analyze_pending a = 1"
    by (auto simp: busy_consistent_def split: if_splits)
  with assms show ?thesis
    by (cases "analyzeSceneAndSuggest reply")
       (simp_all add: busy_consistent_def resume_scene_def answered_def analyze_failed_def
          analyze_pending_def grade_pending_def length_filter_remove1)
qed

lemma busy_consistent_reference:
  assumes "busy_consistent a" and "GenerateReference d g st \<in> set (outstanding a)"
  shows "busy_consistent (resume_reference d g st reply a)"
proof -
  have p: "0 < analyze_pending a"
    unfolding analyze_pending_def by (rule filter_pos [OF assms(2)]) simp
  with assms(1) have "isAnalyzing a" and "analyze_pending a = 1"
    by (auto simp: busy_consistent_def split: if_splits)
  with assms show ?thesis
    by (cases "generatePoseReference reply")
       (simp_all add: busy_consistent_def resume_reference_def answered_def analyze_failed_def
          analyze_pending_def grade_pending_def length_filter_remove1)
qed

lemma busy_consistent_landmarks:
  assumes "busy_consistent a" and "ExtractLandmarks p \<in> set (outstanding a)"
  shows "busy_consistent (resume_landmarks p reply a)"
proof -
  have p: "0 < analyze_pending a"
    unfolding analyze_pending_def by (rule filter_pos [OF assms(2)]) simp
  with assms(1) have "isAnalyzing a" and "analyze_pending a = 1"
    by (auto simp: busy_consistent_def split: if_splits)
  with assms show ?thesis
    by (simp add: busy_consistent_def resume_landmarks_def answered_def
          analyze_pending_def grade_pending_def length_filter_remove1)
qed

lemma busy_consistent_match:
  assumes "busy_consistent a" and "EvaluateMatch b d \<in> set (outstanding a)"
  shows "busy_consistent (resume_match b d reply a)"
proof -
  have p: "0 < grade_pending a"
    unfolding grade_pending_def by (rule filter_pos [OF assms(2)]) simp
  with assms(1) have "isGrading a" and "grade_pending a = 1"
    by (auto simp: busy_consistent_def split: if_splits)
  with assms show ?thesis
    by (cases "evaluatePoseMatch reply")
       (simp_all add: busy_consistent_def resume_match_def answered_def
          analyze_pending_def grade_pending_def length_filter_remove1)
qed

lemma busy_consistent_fire:
  assumes "busy_consistent a" and "fire e a = Some a'"
  shows "busy_consistent a'"
proof (cases e)
  case (TriggerAnalysis frame n1 n2)
  with assms show ?thesis
    by (auto simp: triggerAnalysis_enabled_def busy_consistent_trigger_analysis split: if_splits)
next
  case (TriggerGrading frame n1 n2)
  with assms show ?thesis
    by (auto simp: triggerGrading_enabled_def busy_consistent_trigger_grading split: if_splits)
next
  case (TriggerSave frame n1 n2)
  with assms show ?thesis
    by (auto simp: busy_consistent_trigger_save split: if_splits)
next
  case Reset
  with assms show ?thesis
    by (auto simp: busy_consistent_def reset_def analyze_pending_def grade_pending_def
          split: if_splits)
next
  case (DeleteFromGallery i)
  with assms show ?thesis
    by (auto simp: busy_consistent_def analyze_pending_def grade_pending_def split: if_splits)
next
  case (SelectGender g)
  with assms show ?thesis
    by (auto simp: busy_consistent_def analyze_pending_def grade_pending_def split: if_splits)
next
  case (SelectStyle st)
  with assms show ?thesis
    by (auto simp: busy_consistent_def analyze_pending_def grade_pending_def split: if_splits)
next
  case (SceneReply b g st reply)
  with assms show ?thesis
    by (auto simp: busy_consistent_scene split: if_splits)
next
  case (ReferenceReply d g st reply)
  with assms show ?thesis
    by (auto simp: busy_consistent_reference split: if_splits)
next
  case (LandmarksReply p reply)
  with assms show ?thesis
    by (auto simp: busy_consistent_landmarks split: if_splits)
next
  case (MatchReply b d reply)
  with assms show ?thesis
    by (auto simp: busy_consistent_match split: if_splits)
next
  case (TimerFires t)
  with assms show ?thesis
    by (cases t)
       (auto simp: busy_consistent_def timer_fired_def analyze_pending_def grade_pending_def
          split: if_splits)
qed

lemma reachable_busy_consistent: "reachable a \<Longrightarrow> busy_consistent a"
  by (induction rule: reachable.induct)
     (auto intro: busy_consistent_initial busy_consistent_fire)


lemma run_reachable: "reachable a \<Longrightarrow> run es a = Some a' \<Longrightarrow> reachable a'"
proof (induction es arbitrary: a)
  case Nil
  then show ?case by simp
next
  case (Cons e es)
  from Cons.prems(2) obtain a1 where f: "fire e a = Some a1" and r: "run es a1 = Some a'"
    by (auto split: option.splits)
  from Cons.prems(1) f have "reachable a1" by (rule reachable.fired)
  with r show ?case by (rule Cons.IH [rotated])
qed

lemmas event_defs =
  triggerAnalysis_def triggerGrading_def triggerSave_def capture_def handleCaptureFrame_def resume_scene_def resume_reference_def
  resume_landmarks_def resume_match_def answered_def analyze_failed_def
  triggerAnalysis_enabled_def triggerGrading_enabled_def triggerSave_enabled_def
  reset_enabled_def selectors_shown_def reset_def timer_fired_def Let_def

lemma run_both_busy_trace: "run both_busy_trace (initial []) = Some both_busy_state"
  by (simp add: both_busy_trace_def both_busy_state_def initial_def event_defs
        example_scene example_description example_reference_image extractPoseLandmarks_def
        parsed_text_def)

text \<open>
  C2, as the code has it. Each busy flag guards its own trigger: the analysis trigger
  cannot be fired while the analyzing flag is set, and the grading trigger cannot be
  fired while the grading flag is set. So in every state the mounted component can
  reach, at most one call of the analyze pipeline and at most one grading call are
  outstanding, and each flag is set exactly while its own pipeline has a call
  outstanding.
\<close>

theorem busy_flag_per_pipeline:
  assumes "reachable a"
  shows "analyze_pending a = (if isAnalyzing a then 1 else 0)
       \<and> grade_pending a = (if isGrading a then 1 else 0)
       \<and> (isAnalyzing a \<longrightarrow> fire (TriggerAnalysis frame now1 now2) a = None)
       \<and> (isGrading a \<longrightarrow> fire (TriggerGrading frame now1 now2) a = None)"
  using reachable_busy_consistent [OF assms]
  by (simp add: busy_consistent_def triggerAnalysis_enabled_def triggerGrading_enabled_def)

theorem busy_flag_per_pipeline_witness:
  "reachable both_busy_state
   \<and> isAnalyzing both_busy_state \<and> isGrading both_busy_state
   \<and> analyze_pending both_busy_state = 1 \<and> grade_pending both_busy_state = 1
   \<and> fire (TriggerAnalysis (Some ''f4'') 0 0) both_busy_state = None
   \<and> fire (TriggerGrading (Some ''f4'') 0 0) both_busy_state = None"
proof -
  have r: "reachable both_busy_state"
    by (rule run_reachable [OF reachable.mounted run_both_busy_trace])
  have b: "isAnalyzing both_busy_state" "isGrading both_busy_state"
    by (simp_all add: both_busy_state_def)
  from busy_flag_per_pipeline [OF r, of "Some ''f4''" 0 0] r b
  show ?thesis by (simp del: fire.simps)
qed

text \<open>
  C2, as stated, fails: after a first suggestion, a click on "Regenerate" followed by a
  click on the grading button while the analysis is still outstanding is accepted, and
  both flags are set at once, with one call of each pipeline outstanding.
\<close>

theorem both_flags_busy:
  "map_option (\<lambda>a. (isAnalyzing a, isGrading a, outstanding a)) (run both_busy_trace (initial []))
     = Some (True, True,
             [AnalyzeScene ''f2'' FEMALE CASUAL, EvaluateMatch ''f3'' ''Lean on the wall''])"
  by (simp add: run_both_busy_trace both_busy_state_def)

section \<open>Events during the pipeline\<close>

lemma example_match: "evaluatePoseMatch (Parsed example_feedback) = Inr example_feedback"
  by (simp add: evaluatePoseMatch_def parsed_text_def)

lemma run_append: "run (es @ fs) a = (case run es a of None \<Rightarrow> None | Some a' \<Rightarrow> run fs a')"
  by (induction es arbitrary: a) (auto split: option.splits)

lemma run_interleaved_trace: "run interleaved_trace (initial []) = Some interleaved_state"
  by (simp add: interleaved_trace_def run_append run_both_busy_trace both_busy_state_def
        interleaved_state_def resume_match_def resume_scene_def answered_def example_match
        example_scene example_description)

lemma run_awaiting_landmarks:
  "run (interleaved_trace @
          [ReferenceReply ''Lean on the wall'' FEMALE CASUAL example_reference]) (initial [])
     = Some awaiting_landmarks_state"
  by (simp add: run_append run_interleaved_trace awaiting_landmarks_state_def
        interleaved_state_def resume_reference_def answered_def example_reference_image)



end
